theory Spec2Isabelle
  imports Main "HOL-Library.Sublist"
begin

section \<open>Python values and exceptions\<close>

text \<open>
  The option dictionaries of \<^verbatim>\<open>vyos/ifconfig/dhcp.py\<close> hold strings and booleans.
  A dictionary is a map from key to value; a missing key raises \<^verbatim>\<open>KeyError\<close>.
  \<open>truthy\<close> is Python's truth test (\<^verbatim>\<open>if x\<close>, \<^verbatim>\<open>not x\<close>, \<^verbatim>\<open>x and y\<close>),
  \<open>py_str\<close> is \<^verbatim>\<open>str(x)\<close>.
\<close>

datatype pyval = PStr string | PBool bool | PNone

fun truthy :: "pyval \<Rightarrow> bool" where
  "truthy (PStr s) = (s \<noteq> [])"
| "truthy (PBool b) = b"
| "truthy PNone = False"

fun py_str :: "pyval \<Rightarrow> string" where
  "py_str (PStr s) = s"
| "py_str (PBool b) = (if b then ''True'' else ''False'')"
| "py_str PNone = ''None''"

type_synonym pydict = "string \<rightharpoonup> pyval"

datatype error =
    Exception string
  | KeyError string
  | OSError string
  | TemplateSyntaxError

definition newline :: char where
  "newline = CHR 0x0A"

text \<open>\<^verbatim>\<open>s.rstrip('\n')\<close>: every trailing newline is removed.\<close>

definition rstrip_newline :: "string \<Rightarrow> string" where
  "rstrip_newline s = rev (dropWhile (\<lambda>c. c = newline) (rev s))"

text \<open>Whitespace as Python's \<^verbatim>\<open>\s\<close> reads it on ASCII text.\<close>

definition is_space :: "char \<Rightarrow> bool" where
  "is_space c \<longleftrightarrow>
     c = CHR '' '' \<or> c = CHR 0x0A \<or> c = CHR 0x09 \<or> c = CHR 0x0D \<or> c = CHR 0x0B \<or> c = CHR 0x0C"

text \<open>
  The whitespace-separated words of a string (\<^verbatim>\<open>s.split()\<close>): \<open>cur\<close> is the word
  being read.
\<close>

fun split_ws :: "string \<Rightarrow> string \<Rightarrow> string list" where
  "split_ws cur [] = (if cur = [] then [] else [cur])"
| "split_ws cur (c # cs) =
     (if is_space c then (if cur = [] then [] else [cur]) @ split_ws [] cs
      else split_ws (cur @ [c]) cs)"

definition words_of :: "string \<Rightarrow> string list" where
  "words_of s = split_ws [] s"

section \<open>The template engine\<close>

text \<open>
  \<^verbatim>\<open>jinja2.Template(src).render(ctx)\<close> for the constructs the two templates use, with
  the engine's defaults: \<^verbatim>\<open>{{ name }}\<close> prints \<^verbatim>\<open>str\<close> of the variable (nothing when
  it is undefined), \<^verbatim>\<open>{% if name %}\<close> ... \<^verbatim>\<open>{% endif %}\<close> keeps its body when the
  variable is defined and true, a \<^verbatim>\<open>-\<close> before \<^verbatim>\<open>%}\<close> removes the whitespace
  that follows the tag, and one newline at the end of the source is dropped
  (\<^verbatim>\<open>keep_trailing_newline\<close> is off). Anything else is a syntax error.
\<close>

datatype token = Data string | Var string | If string | Endif | Bad

datatype lexmode = InData | InVar | InBlock

definition data_token :: "string \<Rightarrow> token list" where
  "data_token acc = (if acc = [] then [] else [Data acc])"

definition var_token :: "string \<Rightarrow> token" where
  "var_token body = (case words_of body of [n] \<Rightarrow> Var n | _ \<Rightarrow> Bad)"

definition block_token :: "string \<Rightarrow> token" where
  "block_token body =
     (case words_of body of
        [w] \<Rightarrow> if w = ''endif'' then Endif else Bad
      | [w, n] \<Rightarrow> if w = ''if'' then If n else Bad
      | _ \<Rightarrow> Bad)"

text \<open>\<open>acc\<close> holds the characters read since the last tag, latest first.\<close>

function tokenize :: "lexmode \<Rightarrow> string \<Rightarrow> string \<Rightarrow> token list" where
  "tokenize m acc [] = (if m = InData then data_token (rev acc) else [Bad])"
| "tokenize m acc [c] = (if m = InData then data_token (rev (c # acc)) else [Bad])"
| "tokenize m acc (c # d # cs) =
     (if m = InData \<and> c = CHR ''{'' \<and> d = CHR ''{'' then
        data_token (rev acc) @ tokenize InVar [] cs
      else if m = InData \<and> c = CHR ''{'' \<and> d = CHR ''%'' then
        data_token (rev acc) @ tokenize InBlock [] cs
      else if m = InData \<and> c = CHR ''{'' \<and> d = CHR ''#'' then [Bad]
      else if m = InVar \<and> c = CHR ''}'' \<and> d = CHR ''}'' then
        var_token (rev acc) # tokenize InData [] cs
      else if m = InBlock \<and> c = CHR ''%'' \<and> d = CHR ''}'' then
        (case acc of
           [] \<Rightarrow> block_token [] # tokenize InData [] cs
         | a # acc' \<Rightarrow>
             if a = CHR ''-''
             then block_token (rev acc') # tokenize InData [] (dropWhile is_space cs)
             else block_token (rev acc) # tokenize InData [] cs)
      else tokenize m (c # acc) (d # cs))"
  by pat_completeness auto
termination
  by (relation "measure (\<lambda>(m, acc, cs). length cs)")
     (auto intro: le_imp_less_Suc le_SucI length_dropWhile_le)

definition ctx_str :: "pydict \<Rightarrow> string \<Rightarrow> string" where
  "ctx_str ctx n = (case ctx n of None \<Rightarrow> [] | Some v \<Rightarrow> py_str v)"

definition ctx_true :: "pydict \<Rightarrow> string \<Rightarrow> bool" where
  "ctx_true ctx n = (case ctx n of None \<Rightarrow> False | Some v \<Rightarrow> truthy v)"

text \<open>\<open>st\<close> holds the conditions of the enclosing \<^verbatim>\<open>if\<close> blocks, innermost first.\<close>

fun render_tokens :: "pydict \<Rightarrow> bool list \<Rightarrow> token list \<Rightarrow> string option" where
  "render_tokens ctx st [] = (if st = [] then Some [] else None)"
| "render_tokens ctx st (Data s # ts) =
     map_option (\<lambda>out. (if list_all id st then s else []) @ out) (render_tokens ctx st ts)"
| "render_tokens ctx st (Var n # ts) =
     map_option (\<lambda>out. (if list_all id st then ctx_str ctx n else []) @ out)
       (render_tokens ctx st ts)"
| "render_tokens ctx st (If n # ts) = render_tokens ctx (ctx_true ctx n # st) ts"
| "render_tokens ctx st (Endif # ts) =
     (case st of [] \<Rightarrow> None | b # st' \<Rightarrow> render_tokens ctx st' ts)"
| "render_tokens ctx st (Bad # ts) = None"

definition drop_final_newline :: "string \<Rightarrow> string" where
  "drop_final_newline src = (if src \<noteq> [] \<and> last src = newline then butlast src else src)"

definition jinja_render :: "string \<Rightarrow> pydict \<Rightarrow> error + string" where
  "jinja_render src ctx =
     (case render_tokens ctx [] (tokenize InData [] (drop_final_newline src)) of
        None \<Rightarrow> Inl TemplateSyntaxError
      | Some out \<Rightarrow> Inr out)"

text \<open>A triple-quoted Python literal, line by line: each line ends in a newline.\<close>

definition py_lines :: "string list \<Rightarrow> string" where
  "py_lines ls = concat (map (\<lambda>l. l @ [newline]) ls)"

definition template_v4 :: string where
  \<open>template_v4 = py_lines [
     '''',
     ''# generated by ifconfig.py'',
     ''option rfc3442-classless-static-routes code 121 = array of unsigned integer 8;'',
     ''timeout 60;'',
     ''retry 300;'',
     '''',
     ''interface "{{ intf }}" {'',
     ''    send host-name "{{ hostname }}";'',
     ''    {% if client_id -%}'',
     ''    send dhcp-client-identifier "{{ client_id }}";'',
     ''    {% endif -%}'',
     ''    {% if vendor_class_id -%}'',
     ''    send vendor-class-identifier "{{ vendor_class_id }}";'',
     ''    {% endif -%}'',
     ''    request subnet-mask, broadcast-address, routers, domain-name-servers,'',
     ''        rfc3442-classless-static-routes, domain-name, interface-mtu;'',
     ''    require subnet-mask;'',
     ''}'',
     '''']\<close>

definition template_v6 :: string where
  \<open>template_v6 = py_lines [
     '''',
     ''# generated by ifconfig.py'',
     ''interface "{{ intf }}" {'',
     ''    request routers, domain-name-servers, domain-name;'',
     ''}'',
     '''']\<close>

section \<open>The operating system\<close>

text \<open>
  The regular files with their contents, the paths a write or a removal is refused on,
  and the effects performed so far, in order.
\<close>

datatype event =
    FileWrite string string
  | SysfsWrite string string
  | FileRemove string
  | Command string
  | DebugMsg string

record sys =
  files :: "string \<rightharpoonup> string"
  unwritable :: "string set"
  undeletable :: "string set"
  trace :: "event list"

text \<open>\<^verbatim>\<open>os.path.isfile(p)\<close>\<close>

definition isfile :: "sys \<Rightarrow> string \<Rightarrow> bool" where
  "isfile s p \<longleftrightarrow> files s p \<noteq> None"

text \<open>\<^verbatim>\<open>with open(p, 'r') as f: f.read()\<close>\<close>

definition open_read :: "string \<Rightarrow> sys \<Rightarrow> error + string" where
  "open_read p s = (case files s p of None \<Rightarrow> Inl (OSError p) | Some t \<Rightarrow> Inr t)"

text \<open>\<^verbatim>\<open>with open(p, 'w') as f: f.write(t)\<close>\<close>

definition open_write :: "string \<Rightarrow> string \<Rightarrow> sys \<Rightarrow> (error + unit) \<times> sys" where
  "open_write p t s =
     (if p \<in> unwritable s then (Inl (OSError p), s)
      else (Inr (), s\<lparr>files := (files s)(p \<mapsto> t), trace := trace s @ [FileWrite p t]\<rparr>))"

text \<open>\<^verbatim>\<open>os.remove(p)\<close>\<close>

definition os_remove :: "string \<Rightarrow> sys \<Rightarrow> (error + unit) \<times> sys" where
  "os_remove p s =
     (if files s p = None \<or> p \<in> undeletable s then (Inl (OSError p), s)
      else (Inr (), s\<lparr>files := (files s)(p := None), trace := trace s @ [FileRemove p]\<rparr>))"

section \<open>The collaborators inherited from Control\<close>

text \<open>
  \<^verbatim>\<open>_cmd\<close>, \<^verbatim>\<open>_write_sysfs\<close> and \<^verbatim>\<open>_debug_msg\<close> are methods of the base class
  \<^verbatim>\<open>vyos.ifconfig.control.Control\<close>. What the external program does is a parameter
  \<open>run\<close>: given the command line and the files it returns the program's output, or
  the error \<^verbatim>\<open>_cmd\<close> raises, and the files it leaves behind.
\<close>

type_synonym runner = "string \<Rightarrow> (string \<rightharpoonup> string) \<Rightarrow> (error + string) \<times> (string \<rightharpoonup> string)"

definition cmd :: "runner \<Rightarrow> string \<Rightarrow> sys \<Rightarrow> (error + string) \<times> sys" where
  "cmd run c s =
     (case run c (files s) of
        (r, fs) \<Rightarrow> (r, s\<lparr>files := fs, trace := trace s @ [Command c]\<rparr>))"

text \<open>
  Modelled from the spec: \<^verbatim>\<open>Control._write_sysfs\<close>, "writes a single scalar to a
  kernel control file"; the control file is a file like any other.
\<close>

definition write_sysfs :: "string \<Rightarrow> string \<Rightarrow> sys \<Rightarrow> (error + unit) \<times> sys" where
  "write_sysfs p v s =
     (if p \<in> unwritable s then (Inl (OSError p), s)
      else (Inr (), s\<lparr>files := (files s)(p \<mapsto> v), trace := trace s @ [SysfsWrite p v]\<rparr>))"

text \<open>
  Modelled from the spec: \<^verbatim>\<open>Control._debug_msg\<close>, which logs or reports the message.
\<close>

definition debug_msg :: "string \<Rightarrow> sys \<Rightarrow> sys" where
  "debug_msg m s = s\<lparr>trace := trace s @ [DebugMsg m]\<rparr>"

section \<open>class DHCP\<close>

record dhcp_entry =
  ifname :: string
  conf :: string
  pid :: string
  lease :: string
  options :: pydict

record dhcp6_entry = dhcp_entry +
  accept_ra :: string

record DHCP =
  dhcp4 :: dhcp_entry
  dhcp6 :: dhcp6_entry

definition client_base :: string where
  "client_base = ''/var/lib/dhcp/dhclient_''"

text \<open>\<^verbatim>\<open>DHCP.__init__(self, ifname)\<close>\<close>

definition DHCP_init :: "string \<Rightarrow> DHCP" where
  "DHCP_init name =
     \<lparr> dhcp4 = \<lparr>
         ifname = name,
         conf = client_base @ name @ ''.conf'',
         pid = client_base @ name @ ''.pid'',
         lease = client_base @ name @ ''.leases'',
         options = [''intf'' \<mapsto> PStr name, ''hostname'' \<mapsto> PStr '''',
                    ''client_id'' \<mapsto> PStr '''', ''vendor_class_id'' \<mapsto> PStr ''''] \<rparr>,
       dhcp6 = \<lparr>
         ifname = name,
         conf = client_base @ name @ ''.v6conf'',
         pid = client_base @ name @ ''.v6pid'',
         lease = client_base @ name @ ''.v6leases'',
         options = [''intf'' \<mapsto> PStr name, ''dhcpv6_prm_only'' \<mapsto> PBool False,
                    ''dhcpv6_temporary'' \<mapsto> PBool False],
         accept_ra = ''/proc/sys/net/ipv6/conf/'' @ name @ ''/accept_ra'' \<rparr> \<rparr>"

definition get_dhcp_options :: "DHCP \<Rightarrow> pydict" where
  "get_dhcp_options self = options (dhcp4 self)"

definition set_dhcp_options :: "DHCP \<Rightarrow> pydict \<Rightarrow> DHCP" where
  "set_dhcp_options self opts = self\<lparr>dhcp4 := (dhcp4 self)\<lparr>options := opts\<rparr>\<rparr>"

definition get_dhcpv6_options :: "DHCP \<Rightarrow> pydict" where
  "get_dhcpv6_options self = options (dhcp6 self)"

definition set_dhcpv6_options :: "DHCP \<Rightarrow> pydict \<Rightarrow> DHCP" where
  "set_dhcpv6_options self opts = self\<lparr>dhcp6 := (dhcp6 self)\<lparr>options := opts\<rparr>\<rparr>"

text \<open>
  The command lines, as \<^verbatim>\<open>cmd.format(**self._dhcp[v])\<close> fills the placeholders
  \<^verbatim>\<open>{pid}\<close>, \<^verbatim>\<open>{conf}\<close>, \<^verbatim>\<open>{lease}\<close> and \<^verbatim>\<open>{ifname}\<close> of the assembled format.
\<close>

definition start_cmd4 :: "dhcp_entry \<Rightarrow> string" where
  "start_cmd4 e =
     ''start-stop-daemon''
     @ '' --start''
     @ '' --oknodo''
     @ '' --quiet''
     @ '' --pidfile '' @ pid e
     @ '' --exec /sbin/dhclient''
     @ '' --''
     @ '' -4 -nw -cf '' @ conf e @ '' -pf '' @ pid e @ '' -lf '' @ lease e @ '' '' @ ifname e"

definition release_cmd4 :: "dhcp_entry \<Rightarrow> string" where
  "release_cmd4 e =
     ''/sbin/dhclient -cf '' @ conf e @ '' -pf '' @ pid e @ '' -lf '' @ lease e
     @ '' -r '' @ ifname e"

definition start_cmd6 :: "dhcp6_entry \<Rightarrow> bool \<Rightarrow> bool \<Rightarrow> string" where
  "start_cmd6 e prm_only temporary =
     ''start-stop-daemon''
     @ '' --start''
     @ '' --oknodo''
     @ '' --quiet''
     @ '' --pidfile '' @ pid e
     @ '' --exec /sbin/dhclient''
     @ '' --''
     @ '' -6 -nw -cf '' @ conf e @ '' -pf '' @ pid e @ '' -lf '' @ lease e
     @ (if prm_only then '' -S'' else [])
     @ (if temporary then '' -T'' else [])
     @ '' '' @ ifname e"

definition stop_cmd6 :: "dhcp6_entry \<Rightarrow> string" where
  "stop_cmd6 e =
     ''start-stop-daemon''
     @ '' --start''
     @ '' --oknodo''
     @ '' --quiet''
     @ '' --pidfile '' @ pid e"

text \<open>
  \<^verbatim>\<open>for name in ('conf', 'pid', 'lease'): if os.path.isfile(p): os.remove(p)\<close>, over
  the three paths of an entry; an exception of \<^verbatim>\<open>os.remove\<close> ends the loop.
\<close>

definition generated_paths :: "'a dhcp_entry_scheme \<Rightarrow> string list" where
  "generated_paths e = [conf e, pid e, lease e]"

fun cleanup :: "string list \<Rightarrow> sys \<Rightarrow> (error + unit) \<times> sys" where
  "cleanup [] s = (Inr (), s)"
| "cleanup (p # ps) s =
     (if isfile s p then
        (case os_remove p s of
           (Inl e, s1) \<Rightarrow> (Inl e, s1)
         | (Inr u, s1) \<Rightarrow> cleanup ps s1)
      else cleanup ps s)"

text \<open>
  \<^verbatim>\<open>_set_dhcp\<close>: the result is the output of the command (or the exception raised),
  the object, whose stored options the method may change, and the system.
\<close>

definition set_dhcp :: "runner \<Rightarrow> DHCP \<Rightarrow> sys \<Rightarrow> (error + string) \<times> DHCP \<times> sys" where
  "set_dhcp run self s =
     (case get_dhcp_options self ''hostname'' of
        None \<Rightarrow> (Inl (KeyError ''hostname''), self, s)
      | Some h \<Rightarrow>
          (case (if \<not> truthy h then
                   (case open_read ''/etc/hostname'' s of
                      Inl e \<Rightarrow> Inl e
                    | Inr t \<Rightarrow>
                        Inr (set_dhcp_options self
                          ((get_dhcp_options self)(''hostname'' \<mapsto> PStr (rstrip_newline t)))))
                 else Inr self) of
             Inl e \<Rightarrow> (Inl e, self, s)
           | Inr self1 \<Rightarrow>
               (case jinja_render template_v4 (get_dhcp_options self1) of
                  Inl e \<Rightarrow> (Inl e, self1, s)
                | Inr dhcp_text \<Rightarrow>
                    (case open_write (conf (dhcp4 self1)) dhcp_text s of
                       (Inl e, s1) \<Rightarrow> (Inl e, self1, s1)
                     | (Inr u, s1) \<Rightarrow>
                         (case cmd run (start_cmd4 (dhcp4 self1)) s1 of
                            (r, s2) \<Rightarrow> (r, self1, s2))))))"

text \<open>\<^verbatim>\<open>_del_dhcp\<close>\<close>

definition del_dhcp :: "runner \<Rightarrow> DHCP \<Rightarrow> sys \<Rightarrow> (error + unit) \<times> sys" where
  "del_dhcp run self s =
     (if \<not> isfile s (pid (dhcp4 self)) then
        (Inr (), debug_msg ''No DHCP client PID found'' s)
      else
        (case cmd run (release_cmd4 (dhcp4 self)) s of
           (Inl e, s1) \<Rightarrow> (Inl e, s1)
         | (Inr out, s1) \<Rightarrow>
             cleanup (generated_paths (dhcp4 self)) s1))"

text \<open>
  \<^verbatim>\<open>_set_dhcpv6\<close>. In \<^verbatim>\<open>a and b\<close> the second key is read only when the first
  value is true; both keys are read again when the command line is assembled.
\<close>

definition set_dhcpv6 :: "runner \<Rightarrow> DHCP \<Rightarrow> sys \<Rightarrow> (error + string) \<times> sys" where
  "set_dhcpv6 run self s =
     (let dhcpv6 = get_dhcpv6_options self in
      case dhcpv6 ''dhcpv6_prm_only'' of
        None \<Rightarrow> (Inl (KeyError ''dhcpv6_prm_only''), s)
      | Some prm \<Rightarrow>
          (case (if truthy prm then
                   (case dhcpv6 ''dhcpv6_temporary'' of
                      None \<Rightarrow> Inl (KeyError ''dhcpv6_temporary'')
                    | Some tmp \<Rightarrow> Inr (truthy tmp))
                 else Inr False) of
             Inl e \<Rightarrow> (Inl e, s)
           | Inr both \<Rightarrow>
               if both then
                 (Inl (Exception
                    ''DHCPv6 temporary and parameters-only options are mutually exclusive!''), s)
               else
                 (case jinja_render template_v6 dhcpv6 of
                    Inl e \<Rightarrow> (Inl e, s)
                  | Inr dhcpv6_text \<Rightarrow>
                      (case open_write (conf (dhcp6 self)) dhcpv6_text s of
                         (Inl e, s1) \<Rightarrow> (Inl e, s1)
                       | (Inr u, s1) \<Rightarrow>
                           (case write_sysfs (accept_ra (dhcp6 self)) ''0'' s1 of
                              (Inl e, s2) \<Rightarrow> (Inl e, s2)
                            | (Inr u', s2) \<Rightarrow>
                                (case dhcpv6 ''dhcpv6_temporary'' of
                                   None \<Rightarrow> (Inl (KeyError ''dhcpv6_temporary''), s2)
                                 | Some tmp \<Rightarrow>
                                     cmd run
                                       (start_cmd6 (dhcp6 self) (truthy prm) (truthy tmp))
                                       s2))))))"

text \<open>\<^verbatim>\<open>_del_dhcpv6\<close>\<close>

definition del_dhcpv6 :: "runner \<Rightarrow> DHCP \<Rightarrow> sys \<Rightarrow> (error + unit) \<times> sys" where
  "del_dhcpv6 run self s =
     (if \<not> isfile s (pid (dhcp6 self)) then
        (Inr (), debug_msg ''No DHCPv6 client PID found'' s)
      else
        (case cmd run (stop_cmd6 (dhcp6 self)) s of
           (Inl e, s1) \<Rightarrow> (Inl e, s1)
         | (Inr out, s1) \<Rightarrow>
             (case write_sysfs (accept_ra (dhcp6 self)) ''1'' s1 of
                (Inl e, s2) \<Rightarrow> (Inl e, s2)
              | (Inr u, s2) \<Rightarrow>
                  cleanup (generated_paths (dhcp6 self)) s2)))"

section \<open>Observations the properties are stated with\<close>

text \<open>The command lines handed to \<^verbatim>\<open>_cmd\<close>, and the control writes, of a trace.\<close>

fun commands_of :: "event list \<Rightarrow> string list" where
  "commands_of [] = []"
| "commands_of (Command c # es) = c # commands_of es"
| "commands_of (e # es) = commands_of es"

fun sysfs_writes_of :: "event list \<Rightarrow> (string \<times> string) list" where
  "sysfs_writes_of [] = []"
| "sysfs_writes_of (SysfsWrite p v # es) = (p, v) # sysfs_writes_of es"
| "sysfs_writes_of (e # es) = sysfs_writes_of es"

text \<open>The lines of a text, each ended by a newline (\<^verbatim>\<open>text.splitlines()\<close>).\<close>

fun split_lines :: "string \<Rightarrow> string \<Rightarrow> string list" where
  "split_lines cur [] = (if cur = [] then [] else [cur])"
| "split_lines cur (c # cs) =
     (if c = newline then cur # split_lines [] cs else split_lines (cur @ [c]) cs)"

definition lines_of :: "string \<Rightarrow> string list" where
  "lines_of text = split_lines [] text"

text \<open>A line of a dhclient configuration that sends the option \<open>opt\<close>.\<close>

definition is_send_line :: "string \<Rightarrow> string \<Rightarrow> bool" where
  "is_send_line opt l \<longleftrightarrow> prefix (''send '' @ opt) (dropWhile is_space l)"

section \<open>Auxiliary facts\<close>

lemma commands_of_append [simp]: "commands_of (xs @ ys) = commands_of xs @ commands_of ys"
  by (induction xs rule: commands_of.induct) simp_all

lemma sysfs_writes_of_append [simp]:
  "sysfs_writes_of (xs @ ys) = sysfs_writes_of xs @ sysfs_writes_of ys"
  by (induction xs rule: sysfs_writes_of.induct) simp_all

text \<open>Two strings that end differently differ: compare them from the back.\<close>

lemma append_eq_rev: "n @ s1 = m @ s2 \<Longrightarrow> rev s1 @ rev n = rev s2 @ rev m"
  by (metis rev_append)

section \<open>The generated paths\<close>

text \<open>
  C9. The config, pid and lease paths that \<^verbatim>\<open>__init__\<close> stores are functions of the
  interface name and the IP version alone, and no path is generated twice: the six
  paths of one interface (three per version) are pairwise distinct, and the paths of
  two different interfaces have nothing in common, whatever the versions.
\<close>

theorem paths_injective:
  "distinct (generated_paths (dhcp4 (DHCP_init n)) @ generated_paths (dhcp6 (DHCP_init n)))
   \<and> (n \<noteq> m \<longrightarrow>
        set (generated_paths (dhcp4 (DHCP_init n)) @ generated_paths (dhcp6 (DHCP_init n)))
        \<inter> set (generated_paths (dhcp4 (DHCP_init m)) @ generated_paths (dhcp6 (DHCP_init m)))
        = {})"
  by (auto simp: generated_paths_def DHCP_init_def client_base_def dest!: append_eq_rev)

theorem paths_injective_witness:
  "''eth0'' \<noteq> ''eth1''
   \<and> distinct (generated_paths (dhcp4 (DHCP_init ''eth0''))
        @ generated_paths (dhcp6 (DHCP_init ''eth0'')))
   \<and> set (generated_paths (dhcp4 (DHCP_init ''eth0''))
        @ generated_paths (dhcp6 (DHCP_init ''eth0'')))
      \<inter> set (generated_paths (dhcp4 (DHCP_init ''eth1''))
        @ generated_paths (dhcp6 (DHCP_init ''eth1'')))
      = {}"
  using paths_injective [of "''eth0''" "''eth1''"] by simp

section \<open>Starting the DHCPv6 client\<close>

text \<open>
  C2. When the DHCPv6 options \<^verbatim>\<open>dhcpv6_prm_only\<close> and \<^verbatim>\<open>dhcpv6_temporary\<close> are both
  true, \<^verbatim>\<open>_set_dhcpv6\<close> raises the exception that names the two options mutually
  exclusive, and the system is left exactly as it was: no file written, no control
  file written, no command run.
\<close>

theorem set_dhcpv6_exclusive:
  assumes "get_dhcpv6_options self ''dhcpv6_prm_only'' = Some prm" and "truthy prm"
    and "get_dhcpv6_options self ''dhcpv6_temporary'' = Some tmp" and "truthy tmp"
  shows "set_dhcpv6 run self s =
     (Inl (Exception ''DHCPv6 temporary and parameters-only options are mutually exclusive!''), s)"
  using assms by (simp add: set_dhcpv6_def)

theorem set_dhcpv6_exclusive_witness:
  "get_dhcpv6_options
     (set_dhcpv6_options (DHCP_init ''eth1'')
        [''intf'' \<mapsto> PStr ''eth1'', ''dhcpv6_prm_only'' \<mapsto> PBool True,
         ''dhcpv6_temporary'' \<mapsto> PBool True]) ''dhcpv6_prm_only'' = Some (PBool True)
   \<and> truthy (PBool True)
   \<and> get_dhcpv6_options
     (set_dhcpv6_options (DHCP_init ''eth1'')
        [''intf'' \<mapsto> PStr ''eth1'', ''dhcpv6_prm_only'' \<mapsto> PBool True,
         ''dhcpv6_temporary'' \<mapsto> PBool True]) ''dhcpv6_temporary'' = Some (PBool True)
   \<and> set_dhcpv6 (\<lambda>c fs. (Inr [], fs))
     (set_dhcpv6_options (DHCP_init ''eth1'')
        [''intf'' \<mapsto> PStr ''eth1'', ''dhcpv6_prm_only'' \<mapsto> PBool True,
         ''dhcpv6_temporary'' \<mapsto> PBool True])
     \<lparr>files = Map.empty, unwritable = {}, undeletable = {}, trace = []\<rparr>
     = (Inl (Exception ''DHCPv6 temporary and parameters-only options are mutually exclusive!''),
        \<lparr>files = Map.empty, unwritable = {}, undeletable = {}, trace = []\<rparr>)"
  using set_dhcpv6_exclusive [of
      "set_dhcpv6_options (DHCP_init ''eth1'')
        [''intf'' \<mapsto> PStr ''eth1'', ''dhcpv6_prm_only'' \<mapsto> PBool True,
         ''dhcpv6_temporary'' \<mapsto> PBool True]"
      "PBool True" "PBool True" "\<lambda>c fs. (Inr [], fs)"
      "\<lparr>files = Map.empty, unwritable = {}, undeletable = {}, trace = []\<rparr>"]
  by (simp add: get_dhcpv6_options_def set_dhcpv6_options_def)

section \<open>Stopping a client that is not running\<close>

text \<open>
  C3. When the pid file is not on disk, \<^verbatim>\<open>_del_dhcp\<close> and \<^verbatim>\<open>_del_dhcpv6\<close> return
  normally; all they do is report the debug message, so no command is handed to
  \<^verbatim>\<open>_cmd\<close>.
\<close>

theorem stop_without_pid:
  "(\<not> isfile s (pid (dhcp4 self)) \<longrightarrow>
      del_dhcp run self s =
        (Inr (), s\<lparr>trace := trace s @ [DebugMsg ''No DHCP client PID found'']\<rparr>)
      \<and> commands_of (trace (snd (del_dhcp run self s))) = commands_of (trace s))
   \<and> (\<not> isfile s (pid (dhcp6 self)) \<longrightarrow>
      del_dhcpv6 run self s =
        (Inr (), s\<lparr>trace := trace s @ [DebugMsg ''No DHCPv6 client PID found'']\<rparr>)
      \<and> commands_of (trace (snd (del_dhcpv6 run self s))) = commands_of (trace s))"
  by (simp add: del_dhcp_def del_dhcpv6_def debug_msg_def)

theorem stop_without_pid_witness:
  "\<not> isfile \<lparr>files = Map.empty, unwritable = {}, undeletable = {}, trace = []\<rparr>
       (pid (dhcp4 (DHCP_init ''eth0'')))
   \<and> \<not> isfile \<lparr>files = Map.empty, unwritable = {}, undeletable = {}, trace = []\<rparr>
       (pid (dhcp6 (DHCP_init ''eth0'')))
   \<and> del_dhcp (\<lambda>c fs. (Inr [], fs)) (DHCP_init ''eth0'')
        \<lparr>files = Map.empty, unwritable = {}, undeletable = {}, trace = []\<rparr>
      = (Inr (), \<lparr>files = Map.empty, unwritable = {}, undeletable = {},
                   trace = [DebugMsg ''No DHCP client PID found'']\<rparr>)
   \<and> del_dhcpv6 (\<lambda>c fs. (Inr [], fs)) (DHCP_init ''eth0'')
        \<lparr>files = Map.empty, unwritable = {}, undeletable = {}, trace = []\<rparr>
      = (Inr (), \<lparr>files = Map.empty, unwritable = {}, undeletable = {},
                   trace = [DebugMsg ''No DHCPv6 client PID found'']\<rparr>)"
  using stop_without_pid [of
      "\<lparr>files = Map.empty, unwritable = {}, undeletable = {}, trace = []\<rparr>"
      "DHCP_init ''eth0''" "\<lambda>c fs. (Inr [], fs)"]
  by (simp add: isfile_def)

end
